theory Spec2Isabelle
  imports Main "HOL-Library.Word" "HOL-Library.Sublist"
begin

section \<open>Python values and exceptions\<close>

text \<open>
  The values that \<open>response.json()\<close> can produce, and that the tool may be handed as
  \<open>city\<close>: \<open>None\<close>, booleans, integers, floats (kept as their 64-bit pattern, no
  arithmetic is done on them), strings, lists and dictionaries with string keys. A
  dictionary is an association list read with \<open>map_of\<close>. Strings are \<open>string\<close>.
\<close>

datatype pyval =
    PNone
  | PBool bool
  | PInt int
  | PFloat "64 word"
  | PStr string
  | PList "pyval list"
  | PDict "(string \<times> pyval) list"

text \<open>
  Exceptions, by the class that an \<open>except\<close> clause tests. \<open>RequestException\<close> stands
  for every instance of \<open>requests.exceptions.RequestException\<close> (its subclasses
  included); it, \<open>KeyError\<close> and \<open>IndexError\<close> carry the text of \<open>str(e)\<close>, which the
  handlers of \<open>get_weather\<close> format. \<open>ValidationError\<close> carries the name of the field
  that failed (the text printed around it depends on the version of the validating
  library). \<open>OtherException\<close> carries a class name and a text.
\<close>

datatype pyexc =
    RequestException string
  | KeyError string
  | IndexError string
  | TypeError
  | ValidationError string
  | AttributeError
  | EOFError
  | GraphRecursionError
  | OtherException string string

definition try_bind :: "'e + 'a \<Rightarrow> ('a \<Rightarrow> 'e + 'b) \<Rightarrow> 'e + 'b" where
  "try_bind x f = (case x of Inl e \<Rightarrow> Inl e | Inr v \<Rightarrow> f v)"

text \<open>\<open>repr\<close> of a string key, exact for keys without quotes, backslashes or
  non-printable characters (every key that \<open>get_weather\<close> uses).\<close>

definition py_repr_str :: "string \<Rightarrow> string" where
  "py_repr_str k = [CHR 0x27] @ k @ [CHR 0x27]"

text \<open>\<open>v[k]\<close> for a string \<open>k\<close>.\<close>

fun get_key :: "pyval \<Rightarrow> string \<Rightarrow> pyexc + pyval" where
  "get_key (PDict kvs) k =
     (case map_of kvs k of Some v \<Rightarrow> Inr v | None \<Rightarrow> Inl (KeyError (py_repr_str k)))"
| "get_key _ k = Inl TypeError"

text \<open>\<open>v[0]\<close>. The keys of a dictionary read from JSON are strings, so \<open>0\<close> is never
  one of them.\<close>

fun get_first :: "pyval \<Rightarrow> pyexc + pyval" where
  "get_first (PList []) = Inl (IndexError ''list index out of range'')"
| "get_first (PList (x # xs)) = Inr x"
| "get_first (PStr []) = Inl (IndexError ''string index out of range'')"
| "get_first (PStr (c # cs)) = Inr (PStr [c])"
| "get_first (PDict kvs) = Inl (KeyError ''0'')"
| "get_first _ = Inl TypeError"

section \<open>The HTTP client\<close>

text \<open>
  What \<open>requests.get\<close> hands back: the status line, the final URL, and what
  \<open>response.json()\<close> does on the body (the parsed value, or the exception the
  library raises on a body that is not JSON).
\<close>

record response =
  status_code :: nat
  reason :: string
  resp_url :: string
  json_body :: "pyexc + pyval"

text \<open>
  The world outside the program: the network (\<open>requests.get\<close> as a function of the URL,
  raising or answering), and the two formatting functions of the Python library,
  \<open>str\<close> and \<open>json.dumps\<close>.
\<close>

record env =
  http_get :: "string \<Rightarrow> pyexc + response"
  py_str :: "pyval \<Rightarrow> string"
  json_dumps :: "pyval \<Rightarrow> string"

definition digit_char :: "nat \<Rightarrow> char" where
  "digit_char d = ''0123456789'' ! d"

fun show_nat :: "nat \<Rightarrow> string" where
  "show_nat n =
     (if n < 10 then [digit_char n] else show_nat (n div 10) @ [digit_char (n mod 10)])"

declare show_nat.simps [simp del]

text \<open>\<open>Response.raise_for_status\<close> of the requests library: an \<open>HTTPError\<close> (a
  \<open>RequestException\<close>) for the status codes 400 to 599, nothing otherwise.\<close>

definition http_error_msg :: "response \<Rightarrow> string \<Rightarrow> string" where
  "http_error_msg r kind =
     show_nat (status_code r) @ '' '' @ kind @ '' Error: '' @ reason r
       @ '' for url: '' @ resp_url r"

definition raise_for_status :: "response \<Rightarrow> pyexc + unit" where
  "raise_for_status r =
     (if 400 \<le> status_code r \<and> status_code r < 500
        then Inl (RequestException (http_error_msg r ''Client''))
      else if 500 \<le> status_code r \<and> status_code r < 600
        then Inl (RequestException (http_error_msg r ''Server''))
      else Inr ())"

section \<open>The weather tool\<close>

text \<open>\<open>city.replace(' ', '+')\<close>: both strings are one character long, so every
  occurrence of the space is replaced in place.\<close>

definition replace_char :: "char \<Rightarrow> char \<Rightarrow> string \<Rightarrow> string" where
  "replace_char old new s = map (\<lambda>c. if c = old then new else c) s"

definition weather_url :: "string \<Rightarrow> string" where
  "weather_url city =
     ''https://wttr.in/'' @ replace_char CHR '' '' CHR ''+'' city @ ''?format=j1''"

definition weather_report ::
  "string \<Rightarrow> pyval \<Rightarrow> pyval \<Rightarrow> pyval \<Rightarrow> pyval \<Rightarrow> pyval \<Rightarrow> pyval" where
  "weather_report city temp_c temp_f weather_description humidity wind_speed_kmph =
     PDict [(''city'', PStr city),
            (''temperature_celsius'', temp_c),
            (''temperature_fahrenheit'', temp_f),
            (''description'', weather_description),
            (''humidity_percent'', humidity),
            (''wind_speed_kmph'', wind_speed_kmph)]"

text \<open>The body of the \<open>try\<close> block, lines 29 to 47: the first exception raised ends
  it.\<close>

definition try_block :: "env \<Rightarrow> string \<Rightarrow> string \<Rightarrow> pyexc + string" where
  "try_block e city url =
     try_bind (http_get e url) (\<lambda>response.
     try_bind (raise_for_status response) (\<lambda>_.
     try_bind (json_body response) (\<lambda>data.
     try_bind (get_key data ''current_condition'') (\<lambda>conditions.
     try_bind (get_first conditions) (\<lambda>current_condition.
     try_bind (get_key current_condition ''weatherDesc'') (\<lambda>descs.
     try_bind (get_first descs) (\<lambda>desc.
     try_bind (get_key desc ''value'') (\<lambda>weather_description.
     try_bind (get_key current_condition ''temp_C'') (\<lambda>temp_c.
     try_bind (get_key current_condition ''temp_F'') (\<lambda>temp_f.
     try_bind (get_key current_condition ''humidity'') (\<lambda>humidity.
     try_bind (get_key current_condition ''windspeedKmph'') (\<lambda>wind_speed_kmph.
       Inr (json_dumps e
         (weather_report city temp_c temp_f weather_description humidity
            wind_speed_kmph))))))))))))))"

text \<open>The two \<open>except\<close> clauses, in their order; an exception of any other class
  leaves the function.\<close>

datatype outcome = Returned string | Raised pyexc

fun handlers :: "pyexc + string \<Rightarrow> outcome" where
  "handlers (Inr s) = Returned s"
| "handlers (Inl (RequestException d)) = Returned (''Error fetching weather data: '' @ d)"
| "handlers (Inl (KeyError d)) =
     Returned (''Error parsing weather data. The city might be invalid. Details: '' @ d)"
| "handlers (Inl (IndexError d)) =
     Returned (''Error parsing weather data. The city might be invalid. Details: '' @ d)"
| "handlers (Inl x) = Raised x"

text \<open>\<open>isinstance(city, str)\<close>\<close>

fun is_str :: "pyval \<Rightarrow> bool" where
  "is_str (PStr c) = True"
| "is_str _ = False"

text \<open>One call: the lines it prints, the URLs it asks \<open>requests.get\<close> for, and
  how it ends.\<close>

record tool_run =
  printed :: "string list"
  requested :: "string list"
  result :: outcome

definition calling_line :: "env \<Rightarrow> pyval \<Rightarrow> string" where
  "calling_line e city =
     ''--- Calling Weather Tool for ''
       @ (case city of PStr c \<Rightarrow> c | _ \<Rightarrow> py_str e city) @ '' ---''"

text \<open>The function of lines 17 to 51 as written, which the tool keeps as its
  \<open>func\<close>.\<close>

definition get_weather_func :: "env \<Rightarrow> pyval \<Rightarrow> tool_run" where
  "get_weather_func e city =
     (case city of
        PStr c \<Rightarrow>
          \<lparr>printed = [calling_line e city],
           requested = [weather_url c],
           result = handlers (try_block e c (weather_url c))\<rparr>
      | _ \<Rightarrow>
          \<lparr>printed = [calling_line e city],
           requested = [],
           result = Returned ''Error: City must be a string.''\<rparr>)"

text \<open>
  The decorator \<open>@tool\<close> of line 16 binds the name \<open>get_weather\<close> to a structured tool
  whose argument schema is read from the signature, \<open>city: str\<close>. Invoking the tool
  validates the argument first: a value for \<open>city\<close> that is not a string fails the
  validation, which raises \<open>ValidationError\<close>, and \<open>func\<close> is not called; a string is
  handed to \<open>func\<close>. The second argument is the value given for \<open>city\<close>.
\<close>

definition get_weather :: "env \<Rightarrow> pyval \<Rightarrow> tool_run" where
  "get_weather e city =
     (if is_str city then get_weather_func e city
      else \<lparr>printed = [], requested = [], result = Raised (ValidationError ''city'')\<rparr>)"

section \<open>Messages and the graph\<close>

record tool_call =
  tc_name :: string
  tc_args :: "(string \<times> pyval) list"
  tc_id :: string

text \<open>The three message classes in use: \<open>HumanMessage(content)\<close>,
  \<open>AIMessage(content, tool_calls)\<close> and \<open>ToolMessage(content, name, tool_call_id)\<close>.\<close>

datatype message =
    HumanMessage string
  | AIMessage string "tool_call list"
  | ToolMessage string string string

fun content :: "message \<Rightarrow> string" where
  "content (HumanMessage c) = c"
| "content (AIMessage c tcs) = c"
| "content (ToolMessage c n i) = c"

text \<open>What reaches the terminal: a \<open>print\<close>ed line, the prompt of \<open>input\<close>, or the
  \<open>pretty_print\<close> of a message.\<close>

datatype printing = Print string | Prompt string | PrettyPrint message

text \<open>
  The model behind \<open>model.invoke\<close> and the prebuilt \<open>ToolNode\<close> are outside the
  program. Both read the messages and some state \<open>'w\<close> of the world, which they may
  change; both may raise. The model answers with an \<open>AIMessage\<close>, given by its content
  and its tool calls; the tool node answers with the messages of its update and the
  lines the tools printed. \<open>recursion_limit\<close> is the number of node executions the
  graph engine allows one run before it raises \<open>GraphRecursionError\<close>.
\<close>

record 'w backend =
  model_invoke :: "'w \<Rightarrow> message list \<Rightarrow> (pyexc + string \<times> tool_call list) \<times> 'w"
  tool_node :: "'w \<Rightarrow> message list \<Rightarrow> (printing list \<times> (pyexc + message list)) \<times> 'w"
  recursion_limit :: nat

definition call_model ::
  "'w backend \<Rightarrow> 'w \<Rightarrow> message list \<Rightarrow> (printing list \<times> (pyexc + message list)) \<times> 'w" where
  "call_model b w messages =
     (case model_invoke b w messages of
        (Inl x, w') \<Rightarrow> (([Print ''--- Calling LLM ---''], Inl x), w')
      | (Inr (c, tcs), w') \<Rightarrow> (([Print ''--- Calling LLM ---''], Inr [AIMessage c tcs]), w'))"

text \<open>\<open>state['messages'][-1].tool_calls\<close>: only an \<open>AIMessage\<close> has the attribute.\<close>

definition should_continue :: "message list \<Rightarrow> printing list \<times> (pyexc + string)" where
  "should_continue messages =
     ([Print ''--- Checking for Tool Calls ---''],
      (case rev messages of
         [] \<Rightarrow> Inl (IndexError ''list index out of range'')
       | AIMessage c tcs # _ \<Rightarrow> Inr (if tcs \<noteq> [] then ''continue'' else ''end'')
       | _ \<Rightarrow> Inl AttributeError))"

text \<open>
  A chunk of \<open>app.stream\<close> is a dictionary from the name of a node to its update, itself
  a dictionary that may hold \<open>'messages'\<close>. One run of the stream is the chunks it
  yields, each with the lines printed while it was computed, the lines printed after
  the last chunk, and the exception that ends the run, if one does.
\<close>

type_synonym chunk = "(string \<times> message list option) list"

record stream_run =
  yielded :: "(printing list \<times> chunk) list"
  trailing :: "printing list"
  raised :: "pyexc option"

definition after_chunk ::
  "printing list \<times> chunk \<Rightarrow> (stream_run \<times> message list) \<times> 'w
     \<Rightarrow> (stream_run \<times> message list) \<times> 'w" where
  "after_chunk item r =
     (case r of ((run, ms), w) \<Rightarrow> ((run\<lparr>yielded := item # yielded run\<rparr>, ms), w))"

definition failed ::
  "printing list \<Rightarrow> pyexc \<Rightarrow> message list \<Rightarrow> 'w \<Rightarrow> (stream_run \<times> message list) \<times> 'w" where
  "failed out x messages w =
     ((\<lparr>yielded = [], trailing = out, raised = Some x\<rparr>, messages), w)"

datatype node = Agent | Action

text \<open>
  The compiled graph of lines 79 to 89: \<open>agent\<close> is the entry point; after it,
  \<open>should_continue\<close> chooses \<open>action\<close> or the end; \<open>action\<close> leads back to \<open>agent\<close>.
  The update of a node is added to \<open>state['messages']\<close> by \<open>operator.add\<close> and yielded
  as a chunk. The result carries the messages of the state when the run stops.
\<close>

fun pregel ::
  "'w backend \<Rightarrow> nat \<Rightarrow> node \<Rightarrow> message list \<Rightarrow> 'w \<Rightarrow> (stream_run \<times> message list) \<times> 'w" where
  "pregel b 0 n messages w = failed [] GraphRecursionError messages w"
| "pregel b (Suc k) Agent messages w =
     (case call_model b w messages of
        ((out, Inl x), w') \<Rightarrow> failed out x messages w'
      | ((out, Inr update), w') \<Rightarrow>
          (case should_continue (messages @ update) of
             (out2, Inl x) \<Rightarrow> failed (out @ out2) x messages w'
           | (out2, Inr route) \<Rightarrow>
               if route = ''continue''
               then after_chunk (out @ out2, [(''agent'', Some update)])
                      (pregel b k Action (messages @ update) w')
               else ((\<lparr>yielded = [(out @ out2, [(''agent'', Some update)])],
                       trailing = [], raised = None\<rparr>, messages @ update), w')))"
| "pregel b (Suc k) Action messages w =
     (case tool_node b w messages of
        ((out, Inl x), w') \<Rightarrow> failed out x messages w'
      | ((out, Inr update), w') \<Rightarrow>
          after_chunk (out, [(''action'', Some update)])
            (pregel b k Agent (messages @ update) w'))"

text \<open>\<open>app.stream(graph_input)\<close>: the state starts as \<open>[] + graph_input['messages']\<close>.\<close>

definition app_stream :: "'w backend \<Rightarrow> 'w \<Rightarrow> message list \<Rightarrow> stream_run \<times> 'w" where
  "app_stream b w graph_input =
     (case pregel b (recursion_limit b) Agent graph_input w of
        ((run, ms), w') \<Rightarrow> (run, w'))"

text \<open>
  What each node is handed in a run, in the order of the steps: the node, the messages
  of the state at that step and the world at that step. The recursion is that of
  \<open>pregel\<close>.
\<close>

fun node_inputs ::
  "'w backend \<Rightarrow> nat \<Rightarrow> node \<Rightarrow> message list \<Rightarrow> 'w \<Rightarrow> (node \<times> message list \<times> 'w) list" where
  "node_inputs b 0 n messages w = []"
| "node_inputs b (Suc k) Agent messages w =
     (Agent, messages, w) #
     (case call_model b w messages of
        ((out, Inl x), w') \<Rightarrow> []
      | ((out, Inr update), w') \<Rightarrow>
          (case should_continue (messages @ update) of
             (out2, Inl x) \<Rightarrow> []
           | (out2, Inr route) \<Rightarrow>
               if route = ''continue''
               then node_inputs b k Action (messages @ update) w'
               else []))"
| "node_inputs b (Suc k) Action messages w =
     (Action, messages, w) #
     (case tool_node b w messages of
        ((out, Inl x), w') \<Rightarrow> []
      | ((out, Inr update), w') \<Rightarrow> node_inputs b k Agent (messages @ update) w')"

section \<open>The interaction loop\<close>

definition robot :: string where
  "robot = [CHR 0xF0, CHR 0x9F, CHR 0xA4, CHR 0x96]"

definition banner :: string where
  "banner = robot @ '' Weather AI Agent is ready. Type '' @ [CHR 0x27] @ ''quit''
     @ [CHR 0x27] @ '' or '' @ [CHR 0x27] @ ''exit'' @ [CHR 0x27] @ '' to stop.''"

definition goodbye :: string where
  "goodbye = robot @ '' Goodbye!''"

definition thinking :: string where
  "thinking = [CHR 0x0A] @ ''--- Agent Thinking ---''"

definition node_line :: "string \<Rightarrow> string" where
  "node_line key = ''Output from node '' @ [CHR 0x27] @ key @ [CHR 0x27] @ '':''"

definition answer_line :: "message \<Rightarrow> string" where
  "answer_line m = [CHR 0x0A] @ ''AI: '' @ content m @ [CHR 0x0A]"

definition fallback :: string where
  "fallback = [CHR 0x0A]
     @ ''AI: I seem to have run into an issue processing that. Please try again.''
     @ [CHR 0x0A]"

text \<open>\<open>str.lower\<close> on the letters A to Z; no other character is mapped to one of
  the letters of \<open>quit\<close> or \<open>exit\<close>.\<close>

definition lower_char :: "char \<Rightarrow> char" where
  "lower_char c =
     (case map_of (zip ''ABCDEFGHIJKLMNOPQRSTUVWXYZ'' ''abcdefghijklmnopqrstuvwxyz'') c of
        Some l \<Rightarrow> l | None \<Rightarrow> c)"

definition py_lower :: "string \<Rightarrow> string" where
  "py_lower s = map lower_char s"

text \<open>\<open>isinstance(message, AIMessage) and not message.tool_calls\<close>\<close>

fun is_final :: "message \<Rightarrow> bool" where
  "is_final (AIMessage c tcs) = (tcs = [])"
| "is_final _ = False"

text \<open>The three nested \<open>for\<close> loops of lines 111 to 124, innermost first, on
  \<open>final_response\<close> and the terminal.\<close>

record scan =
  final_response :: "message option"
  out :: "printing list"

fun for_messages :: "message list \<Rightarrow> scan \<Rightarrow> scan" where
  "for_messages [] s = s"
| "for_messages (m # ms) s =
     for_messages ms
       \<lparr>final_response = (if is_final m then Some m else final_response s),
        out = out s @ [PrettyPrint m]\<rparr>"

fun for_items :: "chunk \<Rightarrow> scan \<Rightarrow> scan" where
  "for_items [] s = s"
| "for_items ((key, v) # items) s =
     for_items items
       (case v of
          Some ms \<Rightarrow> for_messages ms (s\<lparr>out := out s @ [Print (node_line key)]\<rparr>)
        | None \<Rightarrow> s\<lparr>out := out s @ [Print (node_line key)]\<rparr>)"

fun for_chunks :: "(printing list \<times> chunk) list \<Rightarrow> scan \<Rightarrow> scan" where
  "for_chunks [] s = s"
| "for_chunks ((pre, ch) # rest) s =
     for_chunks rest
       (let s' = for_items ch (s\<lparr>out := out s @ pre\<rparr>)
        in s'\<lparr>out := out s' @ [Print ''---'']\<rparr>)"

text \<open>
  The session: \<open>conversation_history\<close>, the terminal, the world, and the
  \<open>graph_input\<close> of every call of \<open>app.stream\<close> so far.
\<close>

record 'w session =
  conversation_history :: "message list"
  stdout :: "printing list"
  world :: 'w
  streams :: "message list list"

datatype 'w step = Continue "'w session" | Exited "'w session" | Crashed pyexc "'w session"

fun session_of :: "'w step \<Rightarrow> 'w session" where
  "session_of (Continue s) = s"
| "session_of (Exited s) = s"
| "session_of (Crashed x s) = s"

fun is_Exited :: "'w step \<Rightarrow> bool" where
  "is_Exited (Exited s) = True"
| "is_Exited _ = False"

text \<open>One pass through the body of \<open>while True\<close>, lines 99 to 130, on the line that
  \<open>input\<close> returns. An exception of \<open>app.stream\<close> is not caught.\<close>

definition loop_body ::
  "('w \<Rightarrow> message list \<Rightarrow> stream_run \<times> 'w) \<Rightarrow> string \<Rightarrow> 'w session \<Rightarrow> 'w step" where
  "loop_body app user_input s0 =
     (let s = s0\<lparr>stdout := stdout s0 @ [Prompt ''You: '']\<rparr> in
      if py_lower user_input \<in> set [''quit'', ''exit'']
      then Exited (s\<lparr>stdout := stdout s @ [Print goodbye]\<rparr>)
      else
        (let graph_input = conversation_history s @ [HumanMessage user_input] in
         case app (world s) graph_input of
           (run, w') \<Rightarrow>
             (let sc = for_chunks (yielded run)
                         \<lparr>final_response = None, out = stdout s @ [Print thinking]\<rparr>;
                  s1 = s\<lparr>conversation_history := graph_input,
                         stdout := out sc @ trailing run,
                         world := w',
                         streams := streams s @ [graph_input]\<rparr>
              in case raised run of
                   Some x \<Rightarrow> Crashed x s1
                 | None \<Rightarrow>
                     (case final_response sc of
                        Some m \<Rightarrow>
                          Continue (s1\<lparr>conversation_history := graph_input @ [m],
                                       stdout := stdout s1 @ [Print (answer_line m)]\<rparr>)
                      | None \<Rightarrow>
                          Continue (s1\<lparr>stdout := stdout s1 @ [Print fallback]\<rparr>)))))"

text \<open>The loop on the lines of the standard input; at its end \<open>input\<close> raises
  \<open>EOFError\<close>.\<close>

fun main_loop ::
  "('w \<Rightarrow> message list \<Rightarrow> stream_run \<times> 'w) \<Rightarrow> string list \<Rightarrow> 'w session \<Rightarrow> 'w step" where
  "main_loop app [] s = Crashed EOFError (s\<lparr>stdout := stdout s @ [Prompt ''You: '']\<rparr>)"
| "main_loop app (user_input # rest) s =
     (case loop_body app user_input s of
        Continue s' \<Rightarrow> main_loop app rest s'
      | Exited s' \<Rightarrow> Exited s'
      | Crashed x s' \<Rightarrow> Crashed x s')"

definition initial_session :: "'w \<Rightarrow> 'w session" where
  "initial_session w =
     \<lparr>conversation_history = [], stdout = [Print banner], world = w, streams = []\<rparr>"

definition main ::
  "('w \<Rightarrow> message list \<Rightarrow> stream_run \<times> 'w) \<Rightarrow> string list \<Rightarrow> 'w \<Rightarrow> 'w step" where
  "main app inputs w = main_loop app inputs (initial_session w)"

text \<open>The session after each of the given lines has been taken through the body of
  the loop to its end; \<open>None\<close> when one of them leaves the loop.\<close>

fun after_turns ::
  "('w \<Rightarrow> message list \<Rightarrow> stream_run \<times> 'w) \<Rightarrow> string list \<Rightarrow> 'w session
     \<Rightarrow> 'w session option" where
  "after_turns app [] s = Some s"
| "after_turns app (user_input # rest) s =
     (case loop_body app user_input s of
        Continue s' \<Rightarrow> after_turns app rest s'
      | _ \<Rightarrow> None)"

text \<open>Every message that a run of the stream yields, in order.\<close>

definition chunk_messages :: "chunk \<Rightarrow> message list" where
  "chunk_messages ch = concat (map (\<lambda>(key, v). case v of Some ms \<Rightarrow> ms | None \<Rightarrow> []) ch)"

definition streamed :: "stream_run \<Rightarrow> message list" where
  "streamed run = concat (map (\<lambda>(pre, ch). chunk_messages ch) (yielded run))"

text \<open>What \<open>final_response\<close> holds once the loops have gone through the given
  messages, starting from \<open>fr\<close>: the last of them that is a final answer, if any.\<close>

definition latest :: "message option \<Rightarrow> message list \<Rightarrow> message option" where
  "latest fr ms = (if filter is_final ms = [] then fr else Some (last (filter is_final ms)))"

section \<open>Matching a keyword whatever the case\<close>

text \<open>Two characters are the same letter when they are equal or are the upper-case and
  lower-case forms of one letter; two strings match when they have the same length and
  the same letters, position by position.\<close>

definition same_letter :: "char \<Rightarrow> char \<Rightarrow> bool" where
  "same_letter a b =
     (a = b
      \<or> (a, b) \<in> set (zip ''ABCDEFGHIJKLMNOPQRSTUVWXYZ'' ''abcdefghijklmnopqrstuvwxyz'')
      \<or> (b, a) \<in> set (zip ''ABCDEFGHIJKLMNOPQRSTUVWXYZ'' ''abcdefghijklmnopqrstuvwxyz''))"

definition matches_ignoring_case :: "string \<Rightarrow> string \<Rightarrow> bool" where
  "matches_ignoring_case s k = list_all2 same_letter s k"

section \<open>Concrete worlds\<close>

text \<open>A stand-in for \<open>json.dumps\<close> that keeps string fields readable, two bodies of
  the weather service, a network that answers every request with one status and body,
  and a network that refuses the connection.\<close>

definition demo_dumps :: "pyval \<Rightarrow> string" where
  "demo_dumps v =
     (case v of
        PDict kvs \<Rightarrow>
          concat (map (\<lambda>(k, x). k @ ''='' @ (case x of PStr s \<Rightarrow> s | _ \<Rightarrow> ''?'') @ '';'') kvs)
      | _ \<Rightarrow> ''?'')"

definition sunny_body :: pyval where
  "sunny_body =
     PDict [(''current_condition'',
       PList [PDict [(''weatherDesc'', PList [PDict [(''value'', PStr ''Sunny'')]]),
                     (''temp_C'', PStr ''18''), (''temp_F'', PStr ''64''),
                     (''humidity'', PStr ''40''), (''windspeedKmph'', PStr ''10'')]])]"

definition flat_body :: pyval where
  "flat_body =
     PDict [(''current_condition'',
       PList [PDict [(''weatherDesc'', PStr ''Sunny''),
                     (''temp_C'', PStr ''18''), (''temp_F'', PStr ''64''),
                     (''humidity'', PStr ''40''), (''windspeedKmph'', PStr ''10'')]])]"

definition answering :: "nat \<Rightarrow> string \<Rightarrow> pyval \<Rightarrow> env" where
  "answering status why body =
     \<lparr>http_get = (\<lambda>u. Inr \<lparr>status_code = status, reason = why, resp_url = u,
                            json_body = Inr body\<rparr>),
      py_str = (\<lambda>v. ''?''),
      json_dumps = demo_dumps\<rparr>"

definition refusing :: env where
  "refusing =
     \<lparr>http_get = (\<lambda>u. Inl (RequestException ''Connection refused'')),
      py_str = (\<lambda>v. ''?''),
      json_dumps = demo_dumps\<rparr>"

text \<open>A model that asks for the weather in Paris on its first call and answers on
  the later ones, with a tool node that hands back one result; the run of the stream
  this gives; and a stream that stops after the request of a tool.\<close>

definition paris_call :: tool_call where
  "paris_call = \<lparr>tc_name = ''get_weather'', tc_args = [(''city'', PStr ''Paris'')],
                 tc_id = ''call_1''\<rparr>"

definition paris_request :: message where
  "paris_request = AIMessage '''' [paris_call]"

definition paris_result :: message where
  "paris_result = ToolMessage ''city=Paris;description=Sunny;'' ''get_weather'' ''call_1''"

definition paris_answer :: message where
  "paris_answer = AIMessage ''It is sunny in Paris.'' []"

definition paris_backend :: "nat backend" where
  "paris_backend =
     \<lparr>model_invoke = (\<lambda>w ms. if w = 0 then (Inr ('''', [paris_call]), Suc w)
                              else (Inr (''It is sunny in Paris.'', []), Suc w)),
      tool_node = (\<lambda>w ms. (([Print ''--- Calling Weather Tool for Paris ---''],
                             Inr [paris_result]), w)),
      recursion_limit = 25\<rparr>"

definition cut_short :: "unit \<Rightarrow> message list \<Rightarrow> stream_run \<times> unit" where
  "cut_short w ms =
     (\<lparr>yielded = [([Print ''--- Calling LLM ---''], [(''agent'', Some [paris_request])])],
       trailing = [], raised = None\<rparr>, w)"

text \<open>A model that asks for the tool on every call, and a model whose call fails.\<close>

definition looping_backend :: "unit backend" where
  "looping_backend =
     \<lparr>model_invoke = (\<lambda>w ms. (Inr ('''', [paris_call]), w)),
      tool_node = (\<lambda>w ms. (([Print ''--- Calling Weather Tool for Paris ---''],
                             Inr [paris_result]), w)),
      recursion_limit = 25\<rparr>"

definition failing_backend :: "unit backend" where
  "failing_backend =
     \<lparr>model_invoke =
        (\<lambda>w ms. (Inl (OtherException ''APIConnectionError'' ''Connection error.''), w)),
      tool_node = (\<lambda>w ms. (([], Inr []), w)),
      recursion_limit = 25\<rparr>"

text \<open>The first turn of a session with each of them.\<close>

definition looping_turn :: "unit step" where
  "looping_turn =
     loop_body (app_stream looping_backend) ''What is the weather in Paris?'' (initial_session ())"

definition failing_turn :: "unit step" where
  "failing_turn =
     loop_body (app_stream failing_backend) ''What is the weather in Paris?'' (initial_session ())"

definition paris_run :: stream_run where
  "paris_run =
     \<lparr>yielded =
         [([Print ''--- Calling LLM ---'', Print ''--- Checking for Tool Calls ---''],
           [(''agent'', Some [paris_request])]),
          ([Print ''--- Calling Weather Tool for Paris ---''],
           [(''action'', Some [paris_result])]),
          ([Print ''--- Calling LLM ---'', Print ''--- Checking for Tool Calls ---''],
           [(''agent'', Some [paris_answer])])],
        trailing = [], raised = None\<rparr>"

section \<open>Properties of the weather tool\<close>

lemmas tool_defs = get_weather_def get_weather_func_def try_block_def try_bind_def
  raise_for_status_def

lemmas demo_defs = answering_def refusing_def sunny_body_def flat_body_def demo_dumps_def
  weather_report_def weather_url_def replace_char_def

text \<open>
  C1. When the request is answered, \<open>raise_for_status\<close> lets the response through, and
  the body is an object whose \<open>current_condition\<close> is a non-empty list, its first element
  an object with \<open>temp_C\<close>, \<open>temp_F\<close>, \<open>humidity\<close>, \<open>windspeedKmph\<close> and a non-empty list
  \<open>weatherDesc\<close> whose first element has \<open>value\<close>, the tool returns the serialisation of
  the report with the six fields: the city as given, and the five values as found, none
  of them changed.
\<close>

theorem report_fields:
  assumes "http_get e (weather_url city) = Inr r"
    and "raise_for_status r = Inr ()"
    and "json_body r = Inr (PDict d)"
    and "map_of d ''current_condition'' = Some (PList (PDict c # rest))"
    and "map_of c ''weatherDesc'' = Some (PList (PDict w # wrest))"
    and "map_of w ''value'' = Some desc"
    and "map_of c ''temp_C'' = Some tc"
    and "map_of c ''temp_F'' = Some tf"
    and "map_of c ''humidity'' = Some hum"
    and "map_of c ''windspeedKmph'' = Some wind"
  shows "result (get_weather e (PStr city)) =
      Returned (json_dumps e
        (PDict [(''city'', PStr city), (''temperature_celsius'', tc),
                (''temperature_fahrenheit'', tf), (''description'', desc),
                (''humidity_percent'', hum), (''wind_speed_kmph'', wind)]))"
  using assms by (simp add: get_weather_def get_weather_func_def try_block_def try_bind_def weather_report_def)

theorem report_fields_witness:
  "result (get_weather (answering 200 ''OK'' sunny_body) (PStr ''London'')) =
     Returned ''city=London;temperature_celsius=18;temperature_fahrenheit=64;description=Sunny;humidity_percent=40;wind_speed_kmph=10;''"
proof -
  let ?e = "answering 200 ''OK'' sunny_body"
  let ?r = "\<lparr>status_code = 200, reason = ''OK'', resp_url = weather_url ''London'',
              json_body = Inr sunny_body\<rparr>"
  let ?c = "[(''weatherDesc'', PList [PDict [(''value'', PStr ''Sunny'')]]),
             (''temp_C'', PStr ''18''), (''temp_F'', PStr ''64''),
             (''humidity'', PStr ''40''), (''windspeedKmph'', PStr ''10'')]"
  have 1: "http_get ?e (weather_url ''London'') = Inr ?r" by (simp add: answering_def)
  have 2: "raise_for_status ?r = Inr ()" by (simp add: raise_for_status_def)
  have 3: "json_body ?r = Inr (PDict [(''current_condition'', PList [PDict ?c])])"
    by (simp add: sunny_body_def)
  have 4: "map_of [(''current_condition'', PList [PDict ?c])] ''current_condition''
             = Some (PList (PDict ?c # []))" by simp
  have 5: "map_of ?c ''weatherDesc'' = Some (PList (PDict [(''value'', PStr ''Sunny'')] # []))"
    by simp
  have 6: "map_of [(''value'', PStr ''Sunny'')] ''value'' = Some (PStr ''Sunny'')" by simp
  have 7: "map_of ?c ''temp_C'' = Some (PStr ''18'')" by simp
  have 8: "map_of ?c ''temp_F'' = Some (PStr ''64'')" by simp
  have 9: "map_of ?c ''humidity'' = Some (PStr ''40'')" by simp
  have 10: "map_of ?c ''windspeedKmph'' = Some (PStr ''10'')" by simp
  show ?thesis
    using report_fields [OF 1 2 3 4 5 6 7 8 9 10]
    by (simp add: answering_def demo_dumps_def)
qed

text \<open>
  C5. A value for \<open>city\<close> that is not a string ends in an error at once and never
  reaches \<open>requests.get\<close>: the validation of the tool raises \<open>ValidationError\<close> for the
  field \<open>city\<close> before \<open>func\<close> is called, so no line is printed and no URL is requested.
  The function itself, called on such a value, returns its error text from the test
  of line 24, again without a request.
\<close>

theorem not_text_no_request:
  "\<not> is_str city \<Longrightarrow>
     result (get_weather e city) = Raised (ValidationError ''city'')
       \<and> printed (get_weather e city) = []
       \<and> requested (get_weather e city) = []
       \<and> result (get_weather_func e city) = Returned ''Error: City must be a string.''
       \<and> requested (get_weather_func e city) = []"
  by (cases city) (simp_all add: get_weather_def get_weather_func_def)

theorem not_text_no_request_witness:
  "\<not> is_str (PInt 42)
     \<and> result (get_weather refusing (PInt 42)) = Raised (ValidationError ''city'')
     \<and> printed (get_weather refusing (PInt 42)) = []
     \<and> requested (get_weather refusing (PInt 42)) = []
     \<and> result (get_weather_func refusing (PInt 42)) = Returned ''Error: City must be a string.''
     \<and> requested (get_weather_func refusing (PInt 42)) = []"
  using not_text_no_request [of "PInt 42" refusing] by simp

text \<open>
  C6. A body whose shape lacks the nested fields does not always give the parsing
  error: where a node has another type than expected (\<open>weatherDesc\<close> a plain string, or
  the whole body a list), the subscript raises \<open>TypeError\<close>, which neither \<open>except\<close>
  clause catches, and the exception leaves \<open>get_weather\<close>.
\<close>

theorem type_error_escapes:
  "result (get_weather (answering 200 ''OK'' flat_body) (PStr ''London'')) = Raised TypeError
   \<and> result (get_weather (answering 200 ''OK'' (PList [])) (PStr ''London'')) = Raised TypeError"
  by (simp add: tool_defs demo_defs)

text \<open>Where the body is an object without the key \<open>current_condition\<close>, the text of the
  parsing error is returned, with the key as its detail.\<close>

lemma missing_key_is_parse_error:
  assumes "http_get e (weather_url city) = Inr r"
    and "raise_for_status r = Inr ()"
    and "json_body r = Inr (PDict d)"
    and "map_of d ''current_condition'' = None"
  shows "result (get_weather e (PStr city)) =
      Returned (''Error parsing weather data. The city might be invalid. Details: ''
                 @ [CHR 0x27] @ ''current_condition'' @ [CHR 0x27])"
  using assms by (simp add: get_weather_def get_weather_func_def try_block_def try_bind_def py_repr_str_def)

text \<open>
  C7. As stated for every status outside 200 to 299, the claim fails: a response with
  status 300 and a weather body is read like any other, and the report is returned.
\<close>

theorem multiple_choices_counterexample:
  "http_get (answering 300 ''Multiple Choices'' sunny_body) (weather_url ''London'')
     = Inr \<lparr>status_code = 300, reason = ''Multiple Choices'',
            resp_url = weather_url ''London'', json_body = Inr sunny_body\<rparr>
   \<and> result (get_weather (answering 300 ''Multiple Choices'' sunny_body) (PStr ''London'')) =
     Returned ''city=London;temperature_celsius=18;temperature_fahrenheit=64;description=Sunny;humidity_percent=40;wind_speed_kmph=10;''"
  by (simp add: tool_defs demo_defs)

text \<open>
  C7, amended. For a transport-level failure, which \<open>requests.get\<close> raises as a
  \<open>RequestException\<close> carrying the text of the failure, and for a response whose status
  is from 400 to 599, the tool returns \<open>Error fetching weather data: \<close> followed by
  the text of the failure (for a status, the message of \<open>raise_for_status\<close>): it neither
  raises nor returns a report.
\<close>

theorem network_error_text:
  "(http_get e (weather_url city) = Inl (RequestException d) \<longrightarrow>
      result (get_weather e (PStr city)) = Returned (''Error fetching weather data: '' @ d))
   \<and> (http_get e (weather_url city) = Inr r \<and> 400 \<le> status_code r \<and> status_code r < 600 \<longrightarrow>
      result (get_weather e (PStr city)) =
        Returned (''Error fetching weather data: ''
          @ http_error_msg r (if status_code r < 500 then ''Client'' else ''Server'')))"
  by (auto simp add: get_weather_def get_weather_func_def try_block_def try_bind_def raise_for_status_def)

theorem network_error_text_witness:
  "result (get_weather refusing (PStr ''London'')) =
      Returned ''Error fetching weather data: Connection refused''
   \<and> result (get_weather (answering 404 ''Not Found'' PNone) (PStr ''New York'')) =
      Returned ''Error fetching weather data: 404 Client Error: Not Found for url: https://wttr.in/New+York?format=j1''"
proof -
  let ?r = "\<lparr>status_code = 404, reason = ''Not Found'', resp_url = weather_url ''New York'',
              json_body = Inr PNone\<rparr>"
  have a: "http_get refusing (weather_url ''London'') = Inl (RequestException ''Connection refused'')"
    by (simp add: refusing_def)
  have b: "http_get (answering 404 ''Not Found'' PNone) (weather_url ''New York'') = Inr ?r
             \<and> 400 \<le> status_code ?r \<and> status_code ?r < 600"
    by (simp add: answering_def)
  have n: "show_nat 404 = ''404''" by (simp add: show_nat.simps digit_char_def)
  show ?thesis
    using network_error_text [of refusing "''London''" "''Connection refused''" ?r] a
      network_error_text [of "answering 404 ''Not Found'' PNone" "''New York''" d ?r] b
    by (simp add: http_error_msg_def n weather_url_def replace_char_def)
qed

text \<open>
  C8. For a string city the only URL requested is \<open>weather_url city\<close>, whatever the
  world; it is \<open>https://wttr.in/\<close>, then the city with each space, and nothing else,
  replaced by \<open>+\<close>, then \<open>?format=j1\<close>.
\<close>

theorem request_url:
  "requested (get_weather e (PStr city)) = [weather_url city]
   \<and> requested (get_weather e' (PStr city)) = requested (get_weather e (PStr city))
   \<and> (\<exists>path. weather_url city = ''https://wttr.in/'' @ path @ ''?format=j1''
        \<and> length path = length city
        \<and> (\<forall>i<length city. path ! i = (if city ! i = CHR '' '' then CHR ''+'' else city ! i)))"
  by (simp add: get_weather_def get_weather_func_def weather_url_def replace_char_def)

theorem request_url_witness:
  "requested (get_weather refusing (PStr ''New York'')) = [''https://wttr.in/New+York?format=j1'']
   \<and> requested (get_weather (answering 200 ''OK'' sunny_body) (PStr ''New York''))
       = requested (get_weather refusing (PStr ''New York''))"
  using request_url [of refusing "''New York''" "answering 200 ''OK'' sunny_body"]
  by (simp add: weather_url_def replace_char_def)

text \<open>Where \<open>current_condition\<close> is an empty list, the text of the parsing error is
  returned, with the message of the \<open>IndexError\<close> as its detail.\<close>

lemma empty_list_is_parse_error:
  assumes "http_get e (weather_url city) = Inr r"
    and "raise_for_status r = Inr ()"
    and "json_body r = Inr (PDict d)"
    and "map_of d ''current_condition'' = Some (PList [])"
  shows "result (get_weather e (PStr city)) =
      Returned (''Error parsing weather data. The city might be invalid. Details: ''
                 @ ''list index out of range'')"
  using assms by (simp add: get_weather_def get_weather_func_def try_block_def try_bind_def)

text \<open>
  C10. As stated for an input that is not a string, the claim fails: the tool does not
  return a text for it, the \<open>ValidationError\<close> of its validation leaves \<open>get_weather\<close>.
\<close>

theorem none_is_rejected_counterexample:
  "\<not> is_str PNone
   \<and> result (get_weather (answering 200 ''OK'' sunny_body) PNone)
       = Raised (ValidationError ''city'')"
  by (simp add: get_weather_def)

text \<open>
  C10, amended. For a string city the tool returns a text when the \<open>try\<close> block runs
  to its end (the serialised report), when a \<open>RequestException\<close> is raised in it (a
  transport failure or the status check), and when a \<open>KeyError\<close> or an \<open>IndexError\<close>
  is raised in it (a missing key, an index out of range): the text of the handler
  followed by the text of the exception; so an exception that leaves \<open>get_weather\<close> is
  never of one of these three classes. A value that is not a string does not reach
  the test of line 24: the validation of the tool raises \<open>ValidationError\<close> before \<open>func\<close>
  is called; \<open>func\<close> itself returns the error text of line 25 for it.
\<close>

theorem returns_text:
  "(\<forall>s. try_block e c (weather_url c) = Inr s \<longrightarrow>
        result (get_weather e (PStr c)) = Returned s)
   \<and> (\<forall>d. try_block e c (weather_url c) = Inl (RequestException d) \<longrightarrow>
        result (get_weather e (PStr c)) = Returned (''Error fetching weather data: '' @ d))
   \<and> (\<forall>d. try_block e c (weather_url c) = Inl (KeyError d) \<longrightarrow>
        result (get_weather e (PStr c)) =
          Returned (''Error parsing weather data. The city might be invalid. Details: '' @ d))
   \<and> (\<forall>d. try_block e c (weather_url c) = Inl (IndexError d) \<longrightarrow>
        result (get_weather e (PStr c)) =
          Returned (''Error parsing weather data. The city might be invalid. Details: '' @ d))
   \<and> (\<forall>x. result (get_weather e city) = Raised x \<longrightarrow>
        (\<forall>d. x \<noteq> RequestException d \<and> x \<noteq> KeyError d \<and> x \<noteq> IndexError d))
   \<and> (\<not> is_str city \<longrightarrow>
        result (get_weather e city) = Raised (ValidationError ''city'')
        \<and> printed (get_weather e city) = []
        \<and> result (get_weather_func e city) = Returned ''Error: City must be a string.'')"
proof -
  have h: "handlers t = Raised x \<Longrightarrow>
      x \<noteq> RequestException d \<and> x \<noteq> KeyError d \<and> x \<noteq> IndexError d" for t x d
    by (cases t rule: handlers.cases) auto
  have g: "result (get_weather e (PStr c)) = handlers (try_block e c (weather_url c))"
    by (simp add: get_weather_def get_weather_func_def)
  have 1: "\<forall>s. try_block e c (weather_url c) = Inr s \<longrightarrow>
        result (get_weather e (PStr c)) = Returned s"
    by (simp add: g)
  have 2: "\<forall>d. try_block e c (weather_url c) = Inl (RequestException d) \<longrightarrow>
        result (get_weather e (PStr c)) = Returned (''Error fetching weather data: '' @ d)"
    by (simp add: g)
  have 3: "\<forall>d. try_block e c (weather_url c) = Inl (KeyError d) \<longrightarrow>
        result (get_weather e (PStr c)) =
          Returned (''Error parsing weather data. The city might be invalid. Details: '' @ d)"
    by (simp add: g)
  have 4: "\<forall>d. try_block e c (weather_url c) = Inl (IndexError d) \<longrightarrow>
        result (get_weather e (PStr c)) =
          Returned (''Error parsing weather data. The city might be invalid. Details: '' @ d)"
    by (simp add: g)
  have 5: "x \<noteq> RequestException d \<and> x \<noteq> KeyError d \<and> x \<noteq> IndexError d"
    if r: "result (get_weather e city) = Raised x" for x d
  proof (cases city)
    case (PStr c')
    with r have "handlers (try_block e c' (weather_url c')) = Raised x"
      by (simp add: get_weather_def get_weather_func_def)
    then show ?thesis by (rule h)
  qed (use r in \<open>auto simp add: get_weather_def\<close>)
  have 6: "result (get_weather e city) = Raised (ValidationError ''city'')
        \<and> printed (get_weather e city) = []
        \<and> result (get_weather_func e city) = Returned ''Error: City must be a string.''"
    if "\<not> is_str city"
    using that by (cases city) (simp_all add: get_weather_def get_weather_func_def)
  from 1 2 3 4 5 6 show ?thesis by blast
qed

theorem returns_text_witness:
  "result (get_weather (answering 200 ''OK'' sunny_body) (PStr ''London'')) =
       Returned ''city=London;temperature_celsius=18;temperature_fahrenheit=64;description=Sunny;humidity_percent=40;wind_speed_kmph=10;''
   \<and> result (get_weather refusing (PStr ''London'')) =
       Returned ''Error fetching weather data: Connection refused''
   \<and> result (get_weather (answering 200 ''OK'' (PDict [])) (PStr ''London'')) =
       Returned (''Error parsing weather data. The city might be invalid. Details: ''
                  @ [CHR 0x27] @ ''current_condition'' @ [CHR 0x27])
   \<and> result (get_weather (answering 200 ''OK'' (PDict [(''current_condition'', PList [])]))
         (PStr ''London'')) =
       Returned ''Error parsing weather data. The city might be invalid. Details: list index out of range''
   \<and> result (get_weather (answering 200 ''OK'' (PList [])) (PStr ''London'')) = Raised TypeError
   \<and> (\<forall>d. TypeError \<noteq> RequestException d \<and> TypeError \<noteq> KeyError d \<and> TypeError \<noteq> IndexError d)
   \<and> result (get_weather refusing (PInt 42)) = Raised (ValidationError ''city'')
   \<and> result (get_weather_func refusing (PInt 42)) = Returned ''Error: City must be a string.''"
proof -
  let ?sunny = "answering 200 ''OK'' sunny_body"
  let ?nokey = "answering 200 ''OK'' (PDict [])"
  let ?empty = "answering 200 ''OK'' (PDict [(''current_condition'', PList [])])"
  let ?list = "answering 200 ''OK'' (PList [])"
  let ?u = "weather_url ''London''"
  have a: "try_block ?sunny ''London'' ?u =
      Inr ''city=London;temperature_celsius=18;temperature_fahrenheit=64;description=Sunny;humidity_percent=40;wind_speed_kmph=10;''"
    by (simp add: tool_defs demo_defs)
  have b: "try_block refusing ''London'' ?u = Inl (RequestException ''Connection refused'')"
    by (simp add: tool_defs demo_defs)
  have c: "try_block ?nokey ''London'' ?u
      = Inl (KeyError ([CHR 0x27] @ ''current_condition'' @ [CHR 0x27]))"
    by (simp add: tool_defs demo_defs py_repr_str_def)
  have d: "try_block ?empty ''London'' ?u = Inl (IndexError ''list index out of range'')"
    by (simp add: tool_defs demo_defs)
  have f: "result (get_weather ?list (PStr ''London'')) = Raised TypeError"
    by (simp add: tool_defs demo_defs)
  have n: "\<not> is_str (PInt 42)" by simp
  show ?thesis
    using returns_text [of ?sunny "''London''" "PInt 42"] a
      returns_text [of refusing "''London''" "PInt 42"] b n
      returns_text [of ?nokey "''London''" "PInt 42"] c
      returns_text [of ?empty "''London''" "PInt 42"] d
      returns_text [of ?list "''London''" "PStr ''London''"] f
    by simp
qed

section \<open>Properties of the loops over the stream\<close>

lemma latest_append: "latest (latest fr a) b = latest fr (a @ b)"
  by (simp add: latest_def)

lemma latest_Nil: "latest fr [] = fr"
  by (simp add: latest_def)

lemma for_messages_final:
  "final_response (for_messages ms s) = latest (final_response s) ms"
  by (induction ms arbitrary: s) (simp_all add: latest_def)

lemma for_items_final:
  "final_response (for_items ch s) = latest (final_response s) (chunk_messages ch)"
proof (induction ch arbitrary: s)
  case Nil
  then show ?case by (simp add: chunk_messages_def latest_def)
next
  case (Cons a ch)
  obtain key v where a: "a = (key, v)" by (cases a)
  have "chunk_messages (a # ch) = (case v of Some ms \<Rightarrow> ms | None \<Rightarrow> []) @ chunk_messages ch"
    by (simp add: chunk_messages_def a)
  then show ?case
    using Cons.IH by (cases v) (simp_all add: a for_messages_final latest_append latest_Nil)
qed

lemma for_chunks_final:
  "final_response (for_chunks cs s) =
     latest (final_response s) (concat (map (\<lambda>(pre, ch). chunk_messages ch) cs))"
proof (induction cs arbitrary: s)
  case Nil
  then show ?case by (simp add: latest_def)
next
  case (Cons a cs)
  obtain pre ch where a: "a = (pre, ch)" by (cases a)
  show ?case
    using Cons.IH by (simp add: a Let_def for_items_final latest_append)
qed

lemma scan_final:
  "final_response (for_chunks (yielded run) \<lparr>final_response = None, out = o1\<rparr>)
     = latest None (streamed run)"
  by (simp add: for_chunks_final streamed_def)

lemma latest_is_final: "latest None ms = Some m \<Longrightarrow> is_final m"
proof -
  assume a: "latest None ms = Some m"
  then have ne: "filter is_final ms \<noteq> []" and m: "m = last (filter is_final ms)"
    by (auto simp add: latest_def split: if_splits)
  from ne have "last (filter is_final ms) \<in> set (filter is_final ms)" by (rule last_in_set)
  with m show ?thesis by simp
qed

lemma latest_answer:
  "ms \<noteq> [] \<Longrightarrow> last ms = AIMessage c [] \<Longrightarrow> latest None ms = Some (AIMessage c [])"
proof -
  assume a: "ms \<noteq> []" "last ms = AIMessage c []"
  then obtain xs where ms: "ms = xs @ [AIMessage c []]"
    by (metis append_butlast_last_id)
  show ?thesis by (simp add: ms latest_def)
qed

section \<open>Properties of the body of the loop\<close>

lemma loop_body_exit:
  "py_lower user_input \<in> set [''quit'', ''exit''] \<Longrightarrow>
     loop_body app user_input s =
       Exited (s\<lparr>stdout := stdout s @ [Prompt ''You: '', Print goodbye]\<rparr>)"
  by (simp add: loop_body_def Let_def)

lemma loop_body_turn:
  assumes "py_lower user_input \<notin> set [''quit'', ''exit'']"
    and "app (world s) (conversation_history s @ [HumanMessage user_input]) = (run, w')"
  shows "loop_body app user_input s =
     (let graph_input = conversation_history s @ [HumanMessage user_input];
          sc = for_chunks (yielded run)
                 \<lparr>final_response = None,
                  out = stdout s @ [Prompt ''You: '', Print thinking]\<rparr>;
          s1 = s\<lparr>conversation_history := graph_input,
                 stdout := out sc @ trailing run,
                 world := w',
                 streams := streams s @ [graph_input]\<rparr>
      in case raised run of
           Some x \<Rightarrow> Crashed x s1
         | None \<Rightarrow>
             (case latest None (streamed run) of
                Some m \<Rightarrow>
                  Continue (s1\<lparr>conversation_history := graph_input @ [m],
                               stdout := stdout s1 @ [Print (answer_line m)]\<rparr>)
              | None \<Rightarrow> Continue (s1\<lparr>stdout := stdout s1 @ [Print fallback]\<rparr>)))"
  using assms by (simp add: loop_body_def Let_def scan_final split: option.splits)

lemma loop_body_not_exit:
  assumes "py_lower user_input \<notin> set [''quit'', ''exit'']"
  shows "\<not> is_Exited (loop_body app user_input s)
    \<and> streams (session_of (loop_body app user_input s))
        = streams s @ [conversation_history s @ [HumanMessage user_input]]
    \<and> prefix (conversation_history s @ [HumanMessage user_input])
        (conversation_history (session_of (loop_body app user_input s)))"
proof -
  obtain run w' where a: "app (world s) (conversation_history s @ [HumanMessage user_input]) = (run, w')"
    by (cases "app (world s) (conversation_history s @ [HumanMessage user_input])")
  show ?thesis
    unfolding loop_body_turn [of user_input app s run w', OF assms a]
    by (simp add: Let_def split: option.splits)
qed

lemma lower_q: "lower_char a = CHR ''q'' \<longleftrightarrow> same_letter a CHR ''q''"
  by (auto simp add: lower_char_def same_letter_def split: if_splits)

lemma lower_u: "lower_char a = CHR ''u'' \<longleftrightarrow> same_letter a CHR ''u''"
  by (auto simp add: lower_char_def same_letter_def split: if_splits)

lemma lower_i: "lower_char a = CHR ''i'' \<longleftrightarrow> same_letter a CHR ''i''"
  by (auto simp add: lower_char_def same_letter_def split: if_splits)

lemma lower_t: "lower_char a = CHR ''t'' \<longleftrightarrow> same_letter a CHR ''t''"
  by (auto simp add: lower_char_def same_letter_def split: if_splits)

lemma lower_e: "lower_char a = CHR ''e'' \<longleftrightarrow> same_letter a CHR ''e''"
  by (auto simp add: lower_char_def same_letter_def split: if_splits)

lemma lower_x: "lower_char a = CHR ''x'' \<longleftrightarrow> same_letter a CHR ''x''"
  by (auto simp add: lower_char_def same_letter_def split: if_splits)

lemma lower_quit: "py_lower s = ''quit'' \<longleftrightarrow> matches_ignoring_case s ''quit''"
  by (auto simp add: py_lower_def matches_ignoring_case_def list_all2_Cons2
      lower_q lower_u lower_i lower_t)

lemma lower_exit: "py_lower s = ''exit'' \<longleftrightarrow> matches_ignoring_case s ''exit''"
  by (auto simp add: py_lower_def matches_ignoring_case_def list_all2_Cons2
      lower_e lower_x lower_i lower_t)

section \<open>Properties of the graph\<close>

lemma streamed_after_chunk:
  "after_chunk (pre, ch) r = ((run, final), w') \<Longrightarrow>
     \<exists>run0. r = ((run0, final), w') \<and> streamed run = chunk_messages ch @ streamed run0
        \<and> raised run = raised run0"
  by (cases r) (auto simp add: after_chunk_def streamed_def)

lemma streamed_simps:
  "streamed \<lparr>yielded = [], trailing = t, raised = x\<rparr> = []"
  "streamed \<lparr>yielded = [(pre, ch)], trailing = t, raised = x\<rparr> = chunk_messages ch"
  "chunk_messages [(key, Some update)] = update"
  by (simp_all add: streamed_def chunk_messages_def)

text \<open>The messages of the state when a run stops are those it started with, followed by
  every message it yielded.\<close>

lemma pregel_state:
  "pregel b k n messages w = ((run, final), w') \<Longrightarrow> final = messages @ streamed run"
proof (induction k arbitrary: n messages w run final w')
  case 0
  then show ?case by (auto simp add: failed_def streamed_simps)
next
  case (Suc k)
  show ?case
  proof (cases n)
    case Agent
    with Suc.prems show ?thesis
      by (auto simp add: call_model_def should_continue_def failed_def streamed_simps
          split: prod.splits sum.splits if_splits
          dest!: streamed_after_chunk Suc.IH)
  next
    case Action
    with Suc.prems show ?thesis
      by (auto simp add: failed_def streamed_simps
          split: prod.splits sum.splits
          dest!: streamed_after_chunk Suc.IH)
  qed
qed

text \<open>A run that ends without an exception ends on an answer of the model without tool
  calls.\<close>

lemma pregel_answer:
  "pregel b k n messages w = ((run, final), w') \<Longrightarrow> raised run = None \<Longrightarrow>
     \<exists>c. streamed run \<noteq> [] \<and> last (streamed run) = AIMessage c []"
proof (induction k arbitrary: n messages w run final w')
  case 0
  then show ?case by (auto simp add: failed_def)
next
  case (Suc k)
  show ?case
  proof (cases n)
    case Agent
    with Suc.prems show ?thesis
      by (auto simp add: call_model_def should_continue_def failed_def streamed_simps
          split: prod.splits sum.splits if_splits
          dest!: streamed_after_chunk Suc.IH)
  next
    case Action
    with Suc.prems show ?thesis
      by (auto simp add: failed_def streamed_simps
          split: prod.splits sum.splits
          dest!: streamed_after_chunk Suc.IH)
  qed
qed

text \<open>So a turn through the graph that reaches the end of the body of the loop adds the
  line of the user and one final answer to \<open>conversation_history\<close>.\<close>

lemma graph_turn:
  assumes "loop_body (app_stream b) user_input s = Continue s'"
  shows "\<exists>c. conversation_history s' =
            conversation_history s @ [HumanMessage user_input, AIMessage c []]"
proof -
  have ne: "py_lower user_input \<notin> set [''quit'', ''exit'']"
    using assms loop_body_exit [of user_input "app_stream b" s] by auto
  let ?gi = "conversation_history s @ [HumanMessage user_input]"
  obtain run final w' where p:
    "pregel b (recursion_limit b) Agent ?gi (world s) = ((run, final), w')"
    by (metis prod.exhaust)
  then have a: "app_stream b (world s) ?gi = (run, w')" by (simp add: app_stream_def)
  note lb = loop_body_turn [of user_input "app_stream b" s run w', OF ne a]
  show ?thesis
  proof (cases "raised run")
    case None
    from pregel_answer [OF p None] obtain c where
      "streamed run \<noteq> []" "last (streamed run) = AIMessage c []" by blast
    then have "latest None (streamed run) = Some (AIMessage c [])" by (rule latest_answer)
    with assms lb None show ?thesis by (auto simp add: Let_def)
  next
    case (Some x)
    with assms lb show ?thesis by (simp add: Let_def)
  qed
qed

lemma after_turns_append:
  "after_turns app (xs @ ys) s =
     (case after_turns app xs s of None \<Rightarrow> None | Some s1 \<Rightarrow> after_turns app ys s1)"
  by (induction xs arbitrary: s) (auto split: step.splits)

lemma after_turns_main_loop:
  "after_turns app xs s = Some s' \<Longrightarrow> main_loop app (xs @ rest) s = main_loop app rest s'"
  by (induction xs arbitrary: s) (auto split: step.splits)

lemma after_turns_graph:
  "after_turns (app_stream b) xs s = Some s' \<Longrightarrow>
     length (conversation_history s') = length (conversation_history s) + 2 * length xs
     \<and> prefix (conversation_history s) (conversation_history s')"
proof (induction xs arbitrary: s)
  case Nil
  then show ?case by simp
next
  case (Cons x xs)
  from Cons.prems obtain s1 where
    1: "loop_body (app_stream b) x s = Continue s1" and
    2: "after_turns (app_stream b) xs s1 = Some s'"
    by (auto split: step.splits)
  from graph_turn [OF 1] obtain c where
    h: "conversation_history s1 = conversation_history s @ [HumanMessage x, AIMessage c []]"
    by blast
  from Cons.IH [OF 2] h show ?case
    by (auto simp add: prefix_def)
qed

text \<open>Every later step of a run is handed an extension of the messages of an earlier
  one, and a step of a run that ends without an exception starts a run that does.\<close>

lemma node_inputs_prefix:
  "(n', ms, v) \<in> set (node_inputs b k n messages w) \<Longrightarrow> prefix messages ms"
proof (induction k arbitrary: n messages w)
  case 0
  then show ?case by simp
next
  case (Suc k)
  show ?case
  proof (cases n)
    case Agent
    with Suc.prems show ?thesis
      by (auto split: prod.splits sum.splits if_splits dest!: Suc.IH dest: append_prefixD)
  next
    case Action
    with Suc.prems show ?thesis
      by (auto split: prod.splits sum.splits dest!: Suc.IH dest: append_prefixD)
  qed
qed

lemma after_chunk_result:
  "after_chunk item r = ((run, final), w') \<Longrightarrow>
     \<exists>run0. r = ((run0, final), w') \<and> raised run = raised run0"
  by (cases r) (auto simp add: after_chunk_def)

lemma node_inputs_head:
  "node_inputs b k n0 m0 w0 = x # xs \<Longrightarrow> x = (n0, m0, w0)"
  by (cases k; cases n0) auto

lemma decision_step_run:
  "node_inputs b k n0 m0 w0 = before @ (Agent, messages, w) # following \<Longrightarrow>
   pregel b k n0 m0 w0 = ((run, final), w') \<Longrightarrow> raised run = None \<Longrightarrow>
   \<exists>k' run''. node_inputs b (Suc k') Agent messages w = (Agent, messages, w) # following
      \<and> pregel b (Suc k') Agent messages w = ((run'', final), w') \<and> raised run'' = None"
proof (induction k arbitrary: n0 m0 w0 before run)
  case 0
  then show ?case by simp
next
  case (Suc k)
  show ?case
  proof (cases before)
    case Nil
    with Suc.prems(1) have "(n0, m0, w0) = (Agent, messages, w)"
      using node_inputs_head [of b "Suc k" n0 m0 w0] by simp
    with Suc.prems Nil show ?thesis by auto
  next
    case (Cons x bs)
    show ?thesis
    proof (cases n0)
      case Agent
      with Suc.prems Cons show ?thesis
        by (auto simp add: failed_def split: prod.splits sum.splits if_splits
            dest!: after_chunk_result Suc.IH)
    next
      case Action
      with Suc.prems Cons show ?thesis
        by (auto simp add: failed_def split: prod.splits sum.splits
            dest!: after_chunk_result Suc.IH)
    qed
  qed
qed

lemma tool_cycle_steps:
  assumes "model_invoke b w messages = (Inr (c, tcs), w1)"
    and "tcs \<noteq> []"
    and "tool_node b w1 (messages @ [AIMessage c tcs]) = ((printed_lines, Inr results), w2)"
    and "pregel b (Suc k) Agent messages w = ((run, final), w')"
    and "raised run = None"
  shows "\<exists>k' rest. node_inputs b (Suc k) Agent messages w =
           (Agent, messages, w) # (Action, messages @ [AIMessage c tcs], w1)
             # (Agent, messages @ [AIMessage c tcs] @ results, w2) # rest
         \<and> (Agent, messages @ [AIMessage c tcs] @ results, w2) # rest
             = node_inputs b (Suc k') Agent (messages @ [AIMessage c tcs] @ results) w2"
proof -
  from assms(1,2,4) obtain run1 where
    1: "pregel b k Action (messages @ [AIMessage c tcs]) w1 = ((run1, final), w')"
    and r1: "raised run1 = raised run"
    by (auto simp add: call_model_def should_continue_def dest!: after_chunk_result)
  from 1 r1 assms(5) obtain k1 where k: "k = Suc k1"
    by (cases k) (auto simp add: failed_def)
  from 1 k assms(3) obtain run2 where
    2: "pregel b k1 Agent (messages @ [AIMessage c tcs] @ results) w2 = ((run2, final), w')"
    and r2: "raised run2 = raised run1"
    by (auto dest!: after_chunk_result)
  from 2 r2 r1 assms(5) obtain k2 where k1: "k1 = Suc k2"
    by (cases k1) (auto simp add: failed_def)
  have "node_inputs b (Suc k) Agent messages w =
      (Agent, messages, w) # (Action, messages @ [AIMessage c tcs], w1)
        # node_inputs b (Suc k2) Agent (messages @ [AIMessage c tcs] @ results) w2"
    using assms(1,2,3) by (simp add: k k1 call_model_def should_continue_def)
  moreover obtain rest where
    "node_inputs b (Suc k2) Agent (messages @ [AIMessage c tcs] @ results) w2
       = (Agent, messages @ [AIMessage c tcs] @ results, w2) # rest"
    by simp
  ultimately show ?thesis by auto
qed

lemma completed_turn_run:
  assumes "loop_body (app_stream b) user_input s = Continue s'"
  shows "\<exists>run final w'.
      pregel b (recursion_limit b) Agent (conversation_history s @ [HumanMessage user_input])
        (world s) = ((run, final), w') \<and> raised run = None"
proof -
  have ne: "py_lower user_input \<notin> set [''quit'', ''exit'']"
    using assms loop_body_exit [of user_input "app_stream b" s] by auto
  let ?gi = "conversation_history s @ [HumanMessage user_input]"
  obtain run final w' where p:
    "pregel b (recursion_limit b) Agent ?gi (world s) = ((run, final), w')"
    by (metis prod.exhaust)
  then have a: "app_stream b (world s) ?gi = (run, w')" by (simp add: app_stream_def)
  from loop_body_turn [of user_input "app_stream b" s run w', OF ne a] assms
  have "raised run = None" by (auto simp add: Let_def split: option.splits)
  with p show ?thesis by blast
qed

text \<open>A turn through the graph never takes the branch of the fallback: it ends by an
  exception that leaves \<open>main\<close>, or with an answer.\<close>

lemma graph_turn_ends:
  assumes "py_lower user_input \<notin> set [''quit'', ''exit'']"
  shows "(\<exists>x s1. loop_body (app_stream b) user_input s = Crashed x s1
            \<and> conversation_history s1 = conversation_history s @ [HumanMessage user_input])
       \<or> (\<exists>a s1. loop_body (app_stream b) user_input s = Continue s1
            \<and> conversation_history s1
                 = conversation_history s @ [HumanMessage user_input, AIMessage a []]
            \<and> last (stdout s1) = Print (answer_line (AIMessage a [])))"
proof -
  let ?gi = "conversation_history s @ [HumanMessage user_input]"
  obtain run final w' where p:
    "pregel b (recursion_limit b) Agent ?gi (world s) = ((run, final), w')"
    by (metis prod.exhaust)
  then have a: "app_stream b (world s) ?gi = (run, w')" by (simp add: app_stream_def)
  note lb = loop_body_turn [of user_input "app_stream b" s run w', OF assms a]
  show ?thesis
  proof (cases "raised run")
    case None
    from pregel_answer [OF p None] obtain c where
      "streamed run \<noteq> []" "last (streamed run) = AIMessage c []" by blast
    then have "latest None (streamed run) = Some (AIMessage c [])" by (rule latest_answer)
    with lb None show ?thesis by (simp add: Let_def)
  next
    case (Some x)
    with lb show ?thesis by (simp add: Let_def)
  qed
qed

text \<open>The fallback line is printed by no loop over the chunks.\<close>

lemma for_messages_no_fallback:
  "Print fallback \<notin> set (out s) \<Longrightarrow> Print fallback \<notin> set (out (for_messages ms s))"
  by (induction ms arbitrary: s) simp_all

lemma for_items_no_fallback:
  "Print fallback \<notin> set (out s) \<Longrightarrow> Print fallback \<notin> set (out (for_items ch s))"
proof (induction ch arbitrary: s)
  case Nil
  then show ?case by simp
next
  case (Cons a ch)
  obtain key v where a: "a = (key, v)" by (cases a)
  have n: "Print fallback \<notin> set (out (s\<lparr>out := out s @ [Print (node_line key)]\<rparr>))"
    using Cons.prems by (simp add: node_line_def fallback_def)
  show ?case
  proof (cases v)
    case None
    with n show ?thesis by (simp add: a Cons.IH)
  next
    case (Some ms)
    from n have "Print fallback
        \<notin> set (out (for_messages ms (s\<lparr>out := out s @ [Print (node_line key)]\<rparr>)))"
      by (rule for_messages_no_fallback)
    with Some show ?thesis by (simp add: a Cons.IH)
  qed
qed

lemma for_chunks_no_fallback:
  "Print fallback \<notin> set (out s) \<Longrightarrow>
   \<forall>(pre, ch) \<in> set cs. Print fallback \<notin> set pre \<Longrightarrow>
   Print fallback \<notin> set (out (for_chunks cs s))"
proof (induction cs arbitrary: s)
  case Nil
  then show ?case by simp
next
  case (Cons a cs)
  obtain pre ch where a: "a = (pre, ch)" by (cases a)
  from Cons.prems have "Print fallback \<notin> set (out (s\<lparr>out := out s @ pre\<rparr>))"
    by (simp add: a)
  then have "Print fallback \<notin> set (out (for_items ch (s\<lparr>out := out s @ pre\<rparr>)))"
    by (rule for_items_no_fallback)
  then have "Print fallback \<notin> set (out ((for_items ch (s\<lparr>out := out s @ pre\<rparr>))
      \<lparr>out := out (for_items ch (s\<lparr>out := out s @ pre\<rparr>)) @ [Print ''---'']\<rparr>))"
    by (simp add: fallback_def)
  with Cons.prems show ?case
    by (simp add: a Let_def Cons.IH)
qed

lemmas graph_defs = app_stream_def call_model_def should_continue_def after_chunk_def failed_def

lemmas paris_defs = paris_backend_def paris_call_def paris_request_def paris_result_def
  paris_answer_def

lemma not_exit_paris: "py_lower ''What is the weather in Paris?'' \<notin> set [''quit'', ''exit'']"
  by (simp add: py_lower_def)

lemma paris_stream:
  "pregel paris_backend 25 Agent ms 0 =
     ((paris_run, ms @ [paris_request, paris_result, paris_answer]), 2)"
  by (simp add: eval_nat_numeral graph_defs paris_defs paris_run_def)

lemma paris_app:
  "app_stream paris_backend (world (initial_session 0))
      (conversation_history (initial_session 0) @ [HumanMessage line]) = (paris_run, 2)"
proof -
  have "recursion_limit paris_backend = 25" by (simp add: paris_backend_def)
  then show ?thesis by (simp add: app_stream_def initial_session_def paris_stream)
qed

lemma paris_streamed: "streamed paris_run = [paris_request, paris_result, paris_answer]"
  by (simp add: streamed_def chunk_messages_def paris_run_def)

lemma paris_latest: "latest None (streamed paris_run) = Some paris_answer"
  by (simp add: paris_streamed latest_def paris_defs)

lemma paris_run_fields: "raised paris_run = None" "trailing paris_run = []"
  by (simp_all add: paris_run_def)

lemma paris_turn:
  "loop_body (app_stream paris_backend) ''What is the weather in Paris?'' (initial_session 0)
     = Continue
        \<lparr>conversation_history = [HumanMessage ''What is the weather in Paris?'', paris_answer],
         stdout = out (for_chunks (yielded paris_run)
                    \<lparr>final_response = None,
                     out = [Print banner, Prompt ''You: '', Print thinking]\<rparr>)
                  @ [Print (answer_line paris_answer)],
         world = 2,
         streams = [[HumanMessage ''What is the weather in Paris?'']]\<rparr>"
  unfolding loop_body_turn [of "''What is the weather in Paris?''" "app_stream paris_backend"
      "initial_session 0" paris_run 2, OF not_exit_paris paris_app]
  by (simp add: Let_def paris_latest paris_run_fields initial_session_def)

lemma paris_again:
  assumes "world s = Suc n"
  shows "\<exists>s'. loop_body (app_stream paris_backend) ''Thanks'' s = Continue s'"
proof -
  let ?gi = "conversation_history s @ [HumanMessage ''Thanks'']"
  let ?run = "\<lparr>yielded = [([Print ''--- Calling LLM ---'',
                             Print ''--- Checking for Tool Calls ---''],
                            [(''agent'', Some [paris_answer])])],
                trailing = [], raised = None\<rparr>"
  have l: "recursion_limit paris_backend = 25" by (simp add: paris_backend_def)
  have "pregel paris_backend 25 Agent ?gi (Suc n) = ((?run, ?gi @ [paris_answer]), Suc (Suc n))"
    by (simp add: eval_nat_numeral graph_defs paris_defs)
  then have a: "app_stream paris_backend (world s) ?gi = (?run, Suc (Suc n))"
    by (simp add: app_stream_def l assms)
  have ne: "py_lower ''Thanks'' \<notin> set [''quit'', ''exit'']" by (simp add: py_lower_def)
  have f: "latest None (streamed ?run) = Some paris_answer"
    by (simp add: streamed_simps latest_def paris_answer_def)
  show ?thesis
    unfolding loop_body_turn [of "''Thanks''" "app_stream paris_backend" s ?run "Suc (Suc n)",
        OF ne a]
    by (simp add: Let_def f)
qed

lemma paris_two_turns:
  "\<exists>s2. after_turns (app_stream paris_backend)
           ([''What is the weather in Paris?''] @ [''Thanks'']) (initial_session 0) = Some s2"
proof -
  have "\<exists>s'. loop_body (app_stream paris_backend) ''Thanks''
     \<lparr>conversation_history = [HumanMessage ''What is the weather in Paris?'', paris_answer],
      stdout = out (for_chunks (yielded paris_run)
                 \<lparr>final_response = None,
                  out = [Print banner, Prompt ''You: '', Print thinking]\<rparr>)
               @ [Print (answer_line paris_answer)],
      world = 2,
      streams = [[HumanMessage ''What is the weather in Paris?'']]\<rparr> = Continue s'"
    by (rule paris_again [of _ 1]) simp
  then show ?thesis by (auto simp add: paris_turn)
qed

lemma paris_node_inputs:
  "node_inputs paris_backend (recursion_limit paris_backend) Agent
     (conversation_history (initial_session 0) @ [HumanMessage ''What is the weather in Paris?''])
     (world (initial_session 0))
   = [] @ (Agent, [HumanMessage ''What is the weather in Paris?''], 0)
       # [(Action, [HumanMessage ''What is the weather in Paris?''] @ [AIMessage '''' [paris_call]], 1),
          (Agent, [HumanMessage ''What is the weather in Paris?''] @ [AIMessage '''' [paris_call]]
                    @ [paris_result], 1)]"
  by (simp add: eval_nat_numeral graph_defs paris_defs initial_session_def)

lemma looping_run:
  "pregel looping_backend k n ms w = ((run, final), w') \<Longrightarrow>
     raised run = Some GraphRecursionError \<and> trailing run = []
     \<and> (\<forall>(pre, ch) \<in> set (yielded run). Print fallback \<notin> set pre)"
proof (induction k arbitrary: n ms w run final)
  case 0
  then show ?case by (auto simp add: failed_def)
next
  case (Suc k)
  show ?case
  proof (cases n)
    case Agent
    with Suc.prems obtain run0 ms0 where
      r: "pregel looping_backend k Action ms0 w = ((run0, final), w')" and
      y: "yielded run = ([Print ''--- Calling LLM ---'',
                          Print ''--- Checking for Tool Calls ---''],
                         [(''agent'', Some [AIMessage '''' [paris_call]])]) # yielded run0" and
      t: "trailing run = trailing run0" "raised run = raised run0"
      by (cases "pregel looping_backend k Action (ms @ [AIMessage '''' [paris_call]]) w")
        (auto simp add: call_model_def should_continue_def looping_backend_def after_chunk_def)
    from Suc.IH [OF r] y t show ?thesis by (simp add: fallback_def)
  next
    case Action
    with Suc.prems obtain run0 ms0 where
      r: "pregel looping_backend k Agent ms0 w = ((run0, final), w')" and
      y: "yielded run = ([Print ''--- Calling Weather Tool for Paris ---''],
                         [(''action'', Some [paris_result])]) # yielded run0" and
      t: "trailing run = trailing run0" "raised run = raised run0"
      by (cases "pregel looping_backend k Agent (ms @ [paris_result]) w")
        (auto simp add: looping_backend_def after_chunk_def)
    from Suc.IH [OF r] y t show ?thesis by (simp add: fallback_def)
  qed
qed

lemma looping_turn_eval:
  "looping_turn = Crashed GraphRecursionError (session_of looping_turn)
   \<and> conversation_history (session_of looping_turn)
       = [HumanMessage ''What is the weather in Paris?'']
   \<and> Print fallback \<notin> set (stdout (session_of looping_turn))"
proof -
  let ?gi = "conversation_history (initial_session ())
               @ [HumanMessage ''What is the weather in Paris?'']"
  obtain run final w' where p:
    "pregel looping_backend (recursion_limit looping_backend) Agent ?gi
       (world (initial_session ())) = ((run, final), w')"
    by (metis prod.exhaust)
  then have a: "app_stream looping_backend (world (initial_session ())) ?gi = (run, w')"
    by (simp add: app_stream_def)
  from looping_run [OF p] have r: "raised run = Some GraphRecursionError"
    and t: "trailing run = []"
    and y: "\<forall>(pre, ch) \<in> set (yielded run). Print fallback \<notin> set pre" by auto
  have "Print fallback \<notin> set (out \<lparr>final_response = None,
      out = stdout (initial_session ()) @ [Prompt ''You: '', Print thinking]\<rparr>)"
    by (simp add: initial_session_def fallback_def thinking_def banner_def robot_def)
  from for_chunks_no_fallback [OF this y]
  have f: "Print fallback \<notin> set (out (for_chunks (yielded run) \<lparr>final_response = None,
      out = stdout (initial_session ()) @ [Prompt ''You: '', Print thinking]\<rparr>))" .
  show ?thesis
    unfolding looping_turn_def
      loop_body_turn [of "''What is the weather in Paris?''" "app_stream looping_backend"
        "initial_session ()" run w', OF not_exit_paris a]
    using f by (simp add: Let_def r t) (simp add: initial_session_def)
qed

lemma failing_turn_eval:
  "failing_turn =
      Crashed (OtherException ''APIConnectionError'' ''Connection error.'') (session_of failing_turn)
   \<and> conversation_history (session_of failing_turn)
       = [HumanMessage ''What is the weather in Paris?'']
   \<and> Print fallback \<notin> set (stdout (session_of failing_turn))"
  by (simp add: failing_turn_def loop_body_def Let_def py_lower_def lower_char_def
      eval_nat_numeral graph_defs failing_backend_def initial_session_def
      fallback_def thinking_def node_line_def banner_def robot_def)

section \<open>The session\<close>

text \<open>
  C2. With the graph as compiled, after the turns for the lines \<open>earlier @ later\<close> have
  all been completed, \<open>conversation_history\<close> holds at least two messages for each of
  them; the history after \<open>earlier\<close> is a prefix of the history after \<open>earlier @ later\<close>
  and is strictly shorter when \<open>later\<close> is not empty; and \<open>main\<close> goes on from that
  session with the lines that remain.
\<close>

theorem history_two_per_turn:
  assumes "after_turns (app_stream b) (earlier @ later) (initial_session w) = Some s2"
  shows "\<exists>s1. after_turns (app_stream b) earlier (initial_session w) = Some s1
     \<and> 2 * length earlier \<le> length (conversation_history s1)
     \<and> 2 * length (earlier @ later) \<le> length (conversation_history s2)
     \<and> prefix (conversation_history s1) (conversation_history s2)
     \<and> (later \<noteq> [] \<longrightarrow> length (conversation_history s1) < length (conversation_history s2))
     \<and> main (app_stream b) (earlier @ later @ rest) w = main_loop (app_stream b) rest s2"
proof -
  from assms obtain s1 where
    1: "after_turns (app_stream b) earlier (initial_session w) = Some s1" and
    2: "after_turns (app_stream b) later s1 = Some s2"
    by (auto simp add: after_turns_append split: option.splits)
  from after_turns_graph [OF 1] have
    a: "length (conversation_history s1) = 2 * length earlier"
    by (simp add: initial_session_def)
  from after_turns_graph [OF 2] have
    b: "length (conversation_history s2) = length (conversation_history s1) + 2 * length later"
    and c: "prefix (conversation_history s1) (conversation_history s2)" by auto
  have d: "main (app_stream b) (earlier @ later @ rest) w = main_loop (app_stream b) rest s2"
    using after_turns_main_loop [OF assms, of rest] by (simp add: main_def)
  from 1 a b c d show ?thesis by auto
qed

theorem history_two_per_turn_witness:
  "after_turns (app_stream paris_backend)
      ([''What is the weather in Paris?''] @ [''Thanks'']) (initial_session 0) \<noteq> None
   \<and> 2 * length ([''What is the weather in Paris?''] @ [''Thanks''])
       \<le> length (conversation_history (the (after_turns (app_stream paris_backend)
            ([''What is the weather in Paris?''] @ [''Thanks'']) (initial_session 0))))
   \<and> length (conversation_history (the (after_turns (app_stream paris_backend)
            [''What is the weather in Paris?''] (initial_session 0))))
       < length (conversation_history (the (after_turns (app_stream paris_backend)
            ([''What is the weather in Paris?''] @ [''Thanks'']) (initial_session 0))))"
proof -
  from paris_two_turns obtain s2 where
    e: "after_turns (app_stream paris_backend)
          ([''What is the weather in Paris?''] @ [''Thanks'']) (initial_session 0) = Some s2"
    by blast
  from history_two_per_turn [OF e, of "[]"] e show ?thesis by auto
qed

text \<open>
  C3. As stated for the history of the session, the claim fails: in a turn where the
  model asks for the tool and then answers, the request and the result of the tool are
  printed as they are streamed, and neither is in \<open>conversation_history\<close> after the
  turn.
\<close>

theorem tool_messages_not_kept_counterexample:
  "PrettyPrint paris_request
      \<in> set (stdout (session_of (loop_body (app_stream paris_backend)
                 ''What is the weather in Paris?'' (initial_session 0))))
   \<and> PrettyPrint paris_result
      \<in> set (stdout (session_of (loop_body (app_stream paris_backend)
                 ''What is the weather in Paris?'' (initial_session 0))))
   \<and> paris_request
      \<notin> set (conversation_history (session_of (loop_body (app_stream paris_backend)
                 ''What is the weather in Paris?'' (initial_session 0))))
   \<and> paris_result
      \<notin> set (conversation_history (session_of (loop_body (app_stream paris_backend)
                 ''What is the weather in Paris?'' (initial_session 0))))"
  unfolding paris_turn
  by (simp add: paris_run_def paris_defs)

text \<open>
  C3, amended. Take a turn that is completed, a Decision Step of it (a step of the run
  at the node \<open>agent\<close>, handed \<open>messages\<close>) whose answer has tool calls, and the results
  that the tool node returns for it. Then the next step of the run is the tool node,
  handed the messages with the request appended; the step after it is the next
  Decision Step, handed the messages with the request and the results appended; and
  every later step of the run is handed an extension of these. The history of the
  session receives none of them: after the turn it is the history before it, followed
  by the line of the user and the final answer.
\<close>

theorem tool_cycle_in_graph_state:
  assumes "loop_body (app_stream b) user_input s = Continue s'"
    and "node_inputs b (recursion_limit b) Agent
           (conversation_history s @ [HumanMessage user_input]) (world s)
         = before @ (Agent, messages, w) # following"
    and "model_invoke b w messages = (Inr (c, tcs), w1)"
    and "tcs \<noteq> []"
    and "tool_node b w1 (messages @ [AIMessage c tcs]) = ((printed_lines, Inr results), w2)"
  shows "(\<exists>rest. following =
            (Action, messages @ [AIMessage c tcs], w1)
              # (Agent, messages @ [AIMessage c tcs] @ results, w2) # rest
          \<and> (\<forall>(n, ms, v) \<in> set rest. prefix (messages @ [AIMessage c tcs] @ results) ms))
     \<and> (\<exists>a. conversation_history s' =
            conversation_history s @ [HumanMessage user_input, AIMessage a []])"
proof -
  from completed_turn_run [OF assms(1)] obtain run final w' where
    p: "pregel b (recursion_limit b) Agent (conversation_history s @ [HumanMessage user_input])
          (world s) = ((run, final), w')" and r: "raised run = None" by blast
  from decision_step_run [OF assms(2) p r] obtain k' run' where
    n: "node_inputs b (Suc k') Agent messages w = (Agent, messages, w) # following" and
    p': "pregel b (Suc k') Agent messages w = ((run', final), w')" and r': "raised run' = None"
    by blast
  from tool_cycle_steps [OF assms(3) assms(4) assms(5) p' r'] obtain k2 rest where
    a: "node_inputs b (Suc k') Agent messages w =
           (Agent, messages, w) # (Action, messages @ [AIMessage c tcs], w1)
             # (Agent, messages @ [AIMessage c tcs] @ results, w2) # rest" and
    b: "(Agent, messages @ [AIMessage c tcs] @ results, w2) # rest
             = node_inputs b (Suc k2) Agent (messages @ [AIMessage c tcs] @ results) w2"
    by blast
  from n a have f: "following = (Action, messages @ [AIMessage c tcs], w1)
              # (Agent, messages @ [AIMessage c tcs] @ results, w2) # rest" by simp
  have "prefix (messages @ [AIMessage c tcs] @ results) ms" if "(n, ms, v) \<in> set rest"
    for n ms v
  proof -
    from that have "(n, ms, v) \<in> set ((Agent, messages @ [AIMessage c tcs] @ results, w2) # rest)"
      by simp
    then show ?thesis unfolding b by (rule node_inputs_prefix)
  qed
  with f graph_turn [OF assms(1)] show ?thesis by auto
qed

theorem tool_cycle_in_graph_state_witness:
  "(\<exists>rest. [(Action, [HumanMessage ''What is the weather in Paris?''] @ [AIMessage '''' [paris_call]], 1),
            (Agent, [HumanMessage ''What is the weather in Paris?''] @ [AIMessage '''' [paris_call]]
                      @ [paris_result], 1)]
          = (Action, [HumanMessage ''What is the weather in Paris?''] @ [AIMessage '''' [paris_call]], 1)
              # (Agent, [HumanMessage ''What is the weather in Paris?'']
                          @ [AIMessage '''' [paris_call]] @ [paris_result], 1) # rest
          \<and> (\<forall>(n, ms, v) \<in> set rest.
                prefix ([HumanMessage ''What is the weather in Paris?'']
                          @ [AIMessage '''' [paris_call]] @ [paris_result]) ms))
   \<and> conversation_history (session_of (loop_body (app_stream paris_backend)
          ''What is the weather in Paris?'' (initial_session 0)))
       = [HumanMessage ''What is the weather in Paris?'', AIMessage ''It is sunny in Paris.'' []]"
proof -
  let ?h = "[HumanMessage ''What is the weather in Paris?'']"
  have 3: "model_invoke paris_backend 0 ?h = (Inr ('''', [paris_call]), 1)"
    by (simp add: paris_backend_def)
  have 4: "[paris_call] \<noteq> []" by simp
  have 5: "tool_node paris_backend 1 (?h @ [AIMessage '''' [paris_call]])
             = (([Print ''--- Calling Weather Tool for Paris ---''], Inr [paris_result]), 1)"
    by (simp add: paris_backend_def)
  from tool_cycle_in_graph_state [OF paris_turn paris_node_inputs 3 4 5]
  show ?thesis by (simp add: paris_turn paris_answer_def)
qed

text \<open>
  C4. A turn that ends without a final answer does not reach the fallback. With a model
  that asks for the tool at every call, the run stops at the recursion limit with
  \<open>GraphRecursionError\<close>; with a model whose call fails, it stops with that exception. In
  both turns the exception leaves \<open>main\<close>: the line of the user is all that the history
  received, the fallback line is not printed, and the next line is not read.
\<close>

theorem turn_without_answer_crashes:
  "looping_turn = Crashed GraphRecursionError (session_of looping_turn)
   \<and> conversation_history (session_of looping_turn)
       = [HumanMessage ''What is the weather in Paris?'']
   \<and> Print fallback \<notin> set (stdout (session_of looping_turn))
   \<and> main_loop (app_stream looping_backend) [''What is the weather in Paris?'', ''Hello'']
        (initial_session ()) = looping_turn
   \<and> failing_turn =
        Crashed (OtherException ''APIConnectionError'' ''Connection error.'')
          (session_of failing_turn)
   \<and> conversation_history (session_of failing_turn)
       = [HumanMessage ''What is the weather in Paris?'']
   \<and> Print fallback \<notin> set (stdout (session_of failing_turn))
   \<and> main_loop (app_stream failing_backend) [''What is the weather in Paris?'', ''Hello'']
        (initial_session ()) = failing_turn"
proof -
  have l: "main_loop (app_stream looping_backend) [''What is the weather in Paris?'', ''Hello'']
        (initial_session ()) = looping_turn"
  proof -
    have m: "main_loop (app_stream looping_backend)
          [''What is the weather in Paris?'', ''Hello''] (initial_session ())
        = (case looping_turn of
             Continue s' \<Rightarrow> main_loop (app_stream looping_backend) [''Hello''] s'
           | Exited s' \<Rightarrow> Exited s'
           | Crashed x s' \<Rightarrow> Crashed x s')"
      by (simp add: looping_turn_def)
    from looping_turn_eval obtain s1 where c: "looping_turn = Crashed GraphRecursionError s1"
      by blast
    show ?thesis unfolding m by (simp add: c)
  qed
  have f: "main_loop (app_stream failing_backend) [''What is the weather in Paris?'', ''Hello'']
        (initial_session ()) = failing_turn"
  proof -
    have m: "main_loop (app_stream failing_backend)
          [''What is the weather in Paris?'', ''Hello''] (initial_session ())
        = (case failing_turn of
             Continue s' \<Rightarrow> main_loop (app_stream failing_backend) [''Hello''] s'
           | Exited s' \<Rightarrow> Exited s'
           | Crashed x s' \<Rightarrow> Crashed x s')"
      by (simp add: failing_turn_def)
    from failing_turn_eval obtain s1 where
      c: "failing_turn = Crashed (OtherException ''APIConnectionError'' ''Connection error.'') s1"
      by blast
    show ?thesis unfolding m by (simp add: c)
  qed
  from looping_turn_eval failing_turn_eval l f show ?thesis by blast
qed

text \<open>
  C9. The body of the loop leaves the loop exactly when the line matches \<open>quit\<close> or
  \<open>exit\<close> whatever the case. Then the prompt and the goodbye line are all that is added
  to the session (no call of the stream, the history and the world as they were) and
  \<open>main_loop\<close> stops there; otherwise the stream is called once, on the history extended
  by the line, which the history kept afterwards starts with.
\<close>

theorem exit_keywords:
  "(is_Exited (loop_body app user_input s) \<longleftrightarrow>
      matches_ignoring_case user_input ''quit'' \<or> matches_ignoring_case user_input ''exit'')
   \<and> (is_Exited (loop_body app user_input s) \<longrightarrow>
        loop_body app user_input s =
          Exited (s\<lparr>stdout := stdout s @ [Prompt ''You: '', Print goodbye]\<rparr>)
        \<and> main_loop app (user_input # rest) s = loop_body app user_input s)
   \<and> (\<not> is_Exited (loop_body app user_input s) \<longrightarrow>
        streams (session_of (loop_body app user_input s))
          = streams s @ [conversation_history s @ [HumanMessage user_input]]
        \<and> prefix (conversation_history s @ [HumanMessage user_input])
            (conversation_history (session_of (loop_body app user_input s))))"
proof (cases "py_lower user_input \<in> set [''quit'', ''exit'']")
  case True
  then have m: "matches_ignoring_case user_input ''quit'' \<or> matches_ignoring_case user_input ''exit''"
    using lower_quit lower_exit by auto
  from loop_body_exit [OF True, of app s] m show ?thesis by simp
next
  case False
  then have m: "\<not> (matches_ignoring_case user_input ''quit'' \<or> matches_ignoring_case user_input ''exit'')"
    using lower_quit lower_exit by auto
  from loop_body_not_exit [OF False, of app s] m show ?thesis by simp
qed

theorem exit_keywords_witness:
  "matches_ignoring_case ''Quit'' ''quit''
   \<and> loop_body cut_short ''Quit'' (initial_session ()) =
       Exited \<lparr>conversation_history = [],
               stdout = [Print banner, Prompt ''You: '', Print goodbye],
               world = (), streams = []\<rparr>
   \<and> main_loop cut_short [''Quit'', ''hello''] (initial_session ()) =
       Exited \<lparr>conversation_history = [],
               stdout = [Print banner, Prompt ''You: '', Print goodbye],
               world = (), streams = []\<rparr>
   \<and> \<not> is_Exited (loop_body cut_short ''hello'' (initial_session ()))
   \<and> streams (session_of (loop_body cut_short ''hello'' (initial_session ())))
       = [[HumanMessage ''hello'']]"
proof -
  have m: "matches_ignoring_case ''Quit'' ''quit''"
    by (simp add: matches_ignoring_case_def same_letter_def)
  have n: "\<not> (matches_ignoring_case ''hello'' ''quit'' \<or> matches_ignoring_case ''hello'' ''exit'')"
    by (simp add: matches_ignoring_case_def)
  from exit_keywords [of cut_short "''Quit''" "initial_session ()" "[''hello'']"]
    exit_keywords [of cut_short "''hello''" "initial_session ()" "[]"] m n
  show ?thesis by (simp add: initial_session_def)
qed

end
